theory Spec2Isabelle
  imports Complex_Main
begin

section \<open>Data model (package model)\<close>

text \<open>
  Conventions of the embedding.
  \<^item> A Go \<open>float64\<close> is a \<open>real\<close>: no rounding, no infinities, no NaN. Where the
    source divides by a value that may be zero and only compares the quotient (the
    drawdown of the adaptation step), the IEEE outcome is written out with \<open>xfloat\<close>.
    Where the quotient is stored (the margin of \<open>ExecuteSignal\<close>) it is the division
    of \<open>real\<close>, which is Go's for every non-zero leverage; at leverage zero Go stores an
    infinity or NaN, which the model does not represent.
  \<^item> A \<open>time.Time\<close> is an \<open>int\<close>: milliseconds since the Unix epoch (every time of the
    program comes from \<open>time.UnixMilli\<close>, \<open>Add\<close> and \<open>Truncate\<close> of whole milliseconds).
    The zero value \<open>time.Time{}\<close> is midnight of 1 January of year 1, UTC.
  \<^item> The string types \<open>Direction\<close>, \<open>ActionType\<close> and \<open>MarketState\<close> are strings,
    their constants the source's literals; the zero value is the empty string.
  \<^item> Logging is left out; mutexes are left out (each function is one critical section).
\<close>

type_synonym Time = int

definition zero_time :: Time where
  "zero_time = - 62135596800000"

definition IsZero :: "Time \<Rightarrow> bool" where
  "IsZero t = (t = zero_time)"

definition UnixMilli :: "int \<Rightarrow> Time" where
  "UnixMilli msec = msec"

text \<open>\<open>time.Duration\<close>, in milliseconds.\<close>

definition Millisecond :: int where "Millisecond = 1"
definition Minute_d :: int where "Minute_d = 60000"
definition Hour_d :: int where "Hour_d = 3600000"

text \<open>\<open>Time.Truncate\<close>: round down to a multiple of \<open>d\<close> since the zero time.\<close>

definition Truncate :: "Time \<Rightarrow> int \<Rightarrow> Time" where
  "Truncate t d = (if d \<le> 0 then t else t - ((t - zero_time) mod d))"

text \<open>\<open>Time.Minute\<close>: the minute of the hour, in a location \<open>loc\<close> milliseconds east of UTC.\<close>

definition Minute :: "int \<Rightarrow> Time \<Rightarrow> int" where
  "Minute loc t = ((t + loc - zero_time) div 60000) mod 60"

type_synonym Direction = string
abbreviation DirLong :: Direction where "DirLong \<equiv> ''long''"
abbreviation DirShort :: Direction where "DirShort \<equiv> ''short''"
abbreviation DirFlat :: Direction where "DirFlat \<equiv> ''flat''"

type_synonym ActionType = string
abbreviation ActionNone :: ActionType where "ActionNone \<equiv> ''NONE''"
abbreviation ActionOpen :: ActionType where "ActionOpen \<equiv> ''OPEN''"
abbreviation ActionClose :: ActionType where "ActionClose \<equiv> ''CLOSE''"
abbreviation ActionUpdate :: ActionType where "ActionUpdate \<equiv> ''UPDATE''"

type_synonym MarketState = string
abbreviation StateStrongUpTrend :: MarketState where "StateStrongUpTrend \<equiv> ''STRONG_UP_TREND''"
abbreviation StateStrongDownTrend :: MarketState where "StateStrongDownTrend \<equiv> ''STRONG_DOWN_TREND''"
abbreviation StateHighVolRanging :: MarketState where "StateHighVolRanging \<equiv> ''HIGH_VOL_RANGING''"
abbreviation StateLowVolRanging :: MarketState where "StateLowVolRanging \<equiv> ''LOW_VOL_RANGING''"
abbreviation StateInitial :: MarketState where "StateInitial \<equiv> ''INITIALIZING''"

definition LossStreakThreshold :: nat where "LossStreakThreshold = 3"
definition MaxAllowedDrawdown :: real where "MaxAllowedDrawdown = 0.15"
definition MaxScaleFactor :: real where "MaxScaleFactor = 1.5"
definition MinScaleFactor :: real where "MinScaleFactor = 0.3"

record Ticker =
  t_Symbol :: string
  t_Timestamp :: int
  t_Price :: real
  t_Volume :: real
  t_IsBuyerMaker :: bool

record KLine =
  k_Symbol :: string
  k_Interval :: string
  k_Open :: real
  k_High :: real
  k_Low :: real
  k_Close :: real
  k_Volume :: real
  k_StartTime :: Time
  k_EndTime :: Time

record Signal =
  sig_Symbol :: string
  sig_Timestamp :: Time
  sig_Action :: ActionType
  sig_Direction :: Direction
  sig_Price :: real
  sig_RiskedUSD :: real
  sig_PositionSize :: real
  sig_StopLossPrice :: real
  sig_TakeProfitPrice :: real
  sig_SourceState :: MarketState
  sig_Reason :: string

text \<open>The literal \<open>model.Signal{Action: model.ActionNone}\<close>: every other field zero.\<close>

definition Signal_None :: Signal where
  "Signal_None = \<lparr> sig_Symbol = [], sig_Timestamp = zero_time, sig_Action = ActionNone,
     sig_Direction = [], sig_Price = 0, sig_RiskedUSD = 0, sig_PositionSize = 0,
     sig_StopLossPrice = 0, sig_TakeProfitPrice = 0, sig_SourceState = [], sig_Reason = [] \<rparr>"

text \<open>
  \<open>model.Position\<close>. \<open>generateCloseSignal\<close> reads \<open>currentPosition.SourceState\<close>, a field
  the struct under src/ does not declare; it is carried here so that the function can be
  written down.
\<close>

record Position =
  p_InstID :: string
  p_Direction :: Direction
  p_Size :: real
  p_AvgPrice :: real
  p_UPL :: real
  p_EntryTime :: Time
  p_SourceState :: MarketState

record TradeRecord =
  tr_EntryTime :: Time
  tr_ExitTime :: Time
  tr_Symbol :: string
  tr_PosSide :: Direction
  tr_EntryPrice :: real
  tr_ExitPrice :: real
  tr_Size :: real
  tr_RealizedPnL :: real
  tr_Fee :: real
  tr_TriggerReason :: string

section \<open>Simulated execution engine (internal/executor/simulator\_executor.go)\<close>

record SimulatorConfig =
  InitialCapital :: real
  Leverage :: real
  FeeRate :: real

record SimulatorPosition =
  pos_Symbol :: string
  pos_Side :: Direction
  pos_Size :: real
  pos_AvgPrice :: real
  pos_LiquidationPrice :: real
  pos_StopLossPrice :: real
  pos_TakeProfitPrice :: real
  pos_UPL :: real
  pos_EntryTime :: Time
  pos_EntryFee :: real

record SimulatorExecutor =
  cfg :: SimulatorConfig
  balance :: real
  equity :: real
  maxEquity :: real
  marginUsed :: real
  lastPrice :: real
  position :: SimulatorPosition
  tradeHistory :: "TradeRecord list"
  lastPriceTickerTimestamp :: int

datatype exec_error = InsufficientMargin

text \<open>The literal \<open>&SimulatorPosition{Side: model.DirFlat}\<close>.\<close>

definition flat_position :: SimulatorPosition where
  "flat_position = \<lparr> pos_Symbol = [], pos_Side = DirFlat, pos_Size = 0, pos_AvgPrice = 0,
     pos_LiquidationPrice = 0, pos_StopLossPrice = 0, pos_TakeProfitPrice = 0, pos_UPL = 0,
     pos_EntryTime = zero_time, pos_EntryFee = 0 \<rparr>"

definition NewSimulatorExecutor :: "SimulatorConfig \<Rightarrow> SimulatorExecutor" where
  "NewSimulatorExecutor c =
     \<lparr> cfg = c, balance = InitialCapital c, equity = InitialCapital c,
       maxEquity = InitialCapital c, marginUsed = 0, lastPrice = 1.0,
       position = flat_position \<lparr> pos_Symbol := ''Default'' \<rparr>,
       tradeHistory = [], lastPriceTickerTimestamp = 0 \<rparr>"

definition calculateLiquidationPrice :: "real \<Rightarrow> Direction \<Rightarrow> real \<Rightarrow> real" where
  "calculateLiquidationPrice avgPrice side leverage =
     (if leverage \<le> 0 \<or> side = DirFlat then 0
      else let marginRatio = 1 / leverage in
        if side = DirLong then avgPrice * (1 - marginRatio)
        else if side = DirShort then avgPrice * (1 + marginRatio)
        else 0)"

definition calculateClosedPnL :: "SimulatorPosition \<Rightarrow> real \<Rightarrow> real" where
  "calculateClosedPnL pos closePrice =
     (if pos_Size pos = 0 \<or> pos_Side pos = DirFlat then 0
      else if pos_Side pos = DirLong then (closePrice - pos_AvgPrice pos) * pos_Size pos
      else (pos_AvgPrice pos - closePrice) * pos_Size pos)"

definition updateEquity :: "SimulatorExecutor \<Rightarrow> real \<Rightarrow> SimulatorExecutor" where
  "updateEquity e currentPrice =
     (if pos_Side (position e) = DirFlat then e \<lparr> equity := balance e \<rparr>
      else
        let upl = (if pos_Side (position e) = DirLong
                   then (currentPrice - pos_AvgPrice (position e)) * pos_Size (position e)
                   else (pos_AvgPrice (position e) - currentPrice) * pos_Size (position e))
        in e \<lparr> position := (position e) \<lparr> pos_UPL := upl \<rparr>, equity := balance e + upl \<rparr>)"

text \<open>
  \<open>ExecuteSignal\<close>. The result is \<open>Inl\<close> for the returned error (the state is then
  untouched) and \<open>Inr\<close> of the new state for \<open>nil\<close>.
\<close>

definition ExecuteSignal :: "SimulatorExecutor \<Rightarrow> Signal \<Rightarrow> exec_error + SimulatorExecutor" where
  "ExecuteSignal e signal =
     (let currentPrice = lastPrice e in
      if sig_Action signal = ActionOpen then
        (let requiredMargin = sig_PositionSize signal * currentPrice / Leverage (cfg e) in
         if balance e < requiredMargin then Inl InsufficientMargin
         else
           let fee = sig_PositionSize signal * currentPrice * FeeRate (cfg e);
               e1 = e \<lparr> balance := balance e - fee, marginUsed := requiredMargin \<rparr>;
               e2 = e1 \<lparr> position :=
                      \<lparr> pos_Symbol = sig_Symbol signal,
                        pos_Side = sig_Direction signal,
                        pos_Size = sig_PositionSize signal,
                        pos_AvgPrice = currentPrice,
                        pos_LiquidationPrice =
                          calculateLiquidationPrice currentPrice (sig_Direction signal)
                            (Leverage (cfg e1)),
                        pos_StopLossPrice = sig_StopLossPrice signal,
                        pos_TakeProfitPrice = sig_TakeProfitPrice signal,
                        pos_UPL = 0,
                        pos_EntryTime = UnixMilli (lastPriceTickerTimestamp e1),
                        pos_EntryFee = fee \<rparr> \<rparr>
           in Inr (updateEquity e2 currentPrice))
      else if sig_Action signal = ActionClose \<and> pos_Side (position e) \<noteq> DirFlat then
        (let closePrice = lastPrice e;
             pnl = calculateClosedPnL (position e) closePrice;
             closeFee = pos_Size (position e) * closePrice * FeeRate (cfg e);
             newRecord =
               \<lparr> tr_EntryTime = pos_EntryTime (position e),
                 tr_ExitTime = UnixMilli (lastPriceTickerTimestamp e),
                 tr_Symbol = pos_Symbol (position e),
                 tr_PosSide = pos_Side (position e),
                 tr_EntryPrice = pos_AvgPrice (position e),
                 tr_ExitPrice = closePrice,
                 tr_Size = pos_Size (position e),
                 tr_RealizedPnL = pnl,
                 tr_Fee = pos_EntryFee (position e) + closeFee,
                 tr_TriggerReason = ''Signal'' \<rparr>;
             e1 = e \<lparr> tradeHistory := tradeHistory e @ [newRecord] \<rparr>;
             e2 = e1 \<lparr> balance := balance e1 + (marginUsed e1 + pnl - closeFee),
                       marginUsed := 0 \<rparr>;
             e3 = e2 \<lparr> position := flat_position \<rparr>
         in Inr (updateEquity e3 currentPrice))
      else Inr (updateEquity e currentPrice))"

text \<open>
  The caller of cmd/main.go drops the error of \<open>ExecuteSignal\<close> and goes on with the
  next candle: a rejected signal leaves the state as it was.
\<close>

definition execute_or_keep :: "SimulatorExecutor \<Rightarrow> Signal \<Rightarrow> SimulatorExecutor" where
  "execute_or_keep e signal = (case ExecuteSignal e signal of Inl err \<Rightarrow> e | Inr e' \<Rightarrow> e')"

definition execute_all :: "SimulatorExecutor \<Rightarrow> Signal list \<Rightarrow> SimulatorExecutor" where
  "execute_all e signals = foldl execute_or_keep e signals"

text \<open>
  One turn of the loop of \<open>StartMonitor\<close>, for one tick read from the executor's ticker
  channel.
\<close>

definition checkStopLoss :: "SimulatorExecutor \<Rightarrow> real \<Rightarrow> bool" where
  "checkStopLoss e currentPrice =
     (if pos_Side (position e) = DirFlat \<or> pos_StopLossPrice (position e) = 0 then False
      else if pos_Side (position e) = DirLong
        then currentPrice \<le> pos_StopLossPrice (position e)
      else if pos_Side (position e) = DirShort
        then currentPrice \<ge> pos_StopLossPrice (position e)
      else False)"

definition checkTakeProfit :: "SimulatorExecutor \<Rightarrow> real \<Rightarrow> bool" where
  "checkTakeProfit e currentPrice =
     (if pos_Side (position e) = DirFlat \<or> pos_TakeProfitPrice (position e) = 0 then False
      else if pos_Side (position e) = DirLong
        then currentPrice \<ge> pos_TakeProfitPrice (position e)
      else if pos_Side (position e) = DirShort
        then currentPrice \<le> pos_TakeProfitPrice (position e)
      else False)"

definition checkLiquidation :: "SimulatorExecutor \<Rightarrow> real \<Rightarrow> bool" where
  "checkLiquidation e currentPrice =
     (if pos_Side (position e) = DirFlat \<or> pos_LiquidationPrice (position e) = 0 then False
      else if pos_Side (position e) = DirLong
        then currentPrice \<le> pos_LiquidationPrice (position e)
      else if pos_Side (position e) = DirShort
        then currentPrice \<ge> pos_LiquidationPrice (position e)
      else False)"

definition triggerType :: "bool \<Rightarrow> bool \<Rightarrow> bool \<Rightarrow> string" where
  "triggerType isSL isTP isLiq =
     (let t0 = ''Manual Close'';
          t1 = (if isSL then ''STOP LOSS'' else t0);
          t2 = (if isTP then ''TAKE PROFIT'' else t1);
          t3 = (if isLiq then ''LIQUIDATION'' else t2)
      in if isSL then ''SL'' else t3)"

definition StartMonitor_step :: "SimulatorExecutor \<Rightarrow> Ticker \<Rightarrow> SimulatorExecutor" where
  "StartMonitor_step e ticker =
     (let currentPrice = t_Price ticker;
          e1 = e \<lparr> lastPrice := currentPrice, lastPriceTickerTimestamp := t_Timestamp ticker \<rparr>;
          e2 = updateEquity e1 currentPrice;
          e3 = (if equity e2 > maxEquity e2 then e2 \<lparr> maxEquity := equity e2 \<rparr> else e2)
      in if pos_Side (position e3) \<noteq> DirFlat then
           (let isSL = checkStopLoss e3 currentPrice;
                isTP = checkTakeProfit e3 currentPrice;
                isLiq = checkLiquidation e3 currentPrice
            in if isSL \<or> isTP \<or> isLiq then
                 (let closedPnL = calculateClosedPnL (position e3) currentPrice;
                      closeFee = pos_Size (position e3) * currentPrice * FeeRate (cfg e3);
                      newRecord =
                        \<lparr> tr_EntryTime = pos_EntryTime (position e3),
                          tr_ExitTime = UnixMilli (t_Timestamp ticker),
                          tr_Symbol = [], tr_PosSide = [], tr_EntryPrice = 0,
                          tr_ExitPrice = 0, tr_Size = 0,
                          tr_RealizedPnL = closedPnL, tr_Fee = 0,
                          tr_TriggerReason = triggerType isSL isTP isLiq \<rparr>;
                      e4 = e3 \<lparr> tradeHistory := tradeHistory e3 @ [newRecord] \<rparr>;
                      e5 = e4 \<lparr> balance := balance e4 + (marginUsed e4 + closedPnL - closeFee),
                                marginUsed := 0 \<rparr>
                  in e5 \<lparr> position := flat_position \<rparr>)
               else e3)
         else e3)"

section \<open>Streaming engine and candle aggregator (internal/model/data\_engine.go)\<close>

text \<open>
  A channel is \<open>NilChan\<close> (the zero value of a channel variable: never made) or a buffer
  of a capacity with its queued items, oldest first. \<open>try_send\<close> is the statement
  \<^verbatim>\<open>select { case ch <- x: default: }\<close> seen from the buffer: the item is queued when
  there is room; on a full channel and on a nil channel, where no send can ever proceed,
  the default branch runs. The flag says whether the item was sent.
\<close>

datatype 'a chan = NilChan | Chan nat "'a list"

fun try_send :: "'a chan \<Rightarrow> 'a \<Rightarrow> 'a chan \<times> bool" where
  "try_send NilChan x = (NilChan, False)"
| "try_send (Chan n q) x = (if length q < n then (Chan n (q @ [x]), True) else (Chan n q, False))"

fun queued :: "'a chan \<Rightarrow> 'a list" where
  "queued NilChan = []"
| "queued (Chan n q) = q"

text \<open>
  The aggregator with the channel it writes completed candles to. Its input channel is
  left out: \<open>Run\<close> is given the ticks it reads.
\<close>

record KlineAggregator =
  agg_Symbol :: string
  agg_Interval :: string
  Current :: KLine
  OutChan :: "KLine chan"

definition NewKlineAggregator :: "string \<Rightarrow> string \<Rightarrow> KLine chan \<Rightarrow> KlineAggregator" where
  "NewKlineAggregator symbol intervalStr outChan =
     \<lparr> agg_Symbol = symbol, agg_Interval = intervalStr,
       Current = \<lparr> k_Symbol = symbol, k_Interval = intervalStr, k_Open = 0, k_High = 0,
                   k_Low = 0, k_Close = 0, k_Volume = 0, k_StartTime = zero_time,
                   k_EndTime = zero_time \<rparr>,
       OutChan = outChan \<rparr>"

text \<open>
  \<open>ProcessTicker\<close>. \<open>intervalDuration\<close> is the constant one minute of the source: the
  \<^verbatim>\<open>if agg.Interval != "1m" { }\<close> that follows it has an empty body.
\<close>

definition ProcessTicker :: "KlineAggregator \<Rightarrow> Ticker \<Rightarrow> KlineAggregator" where
  "ProcessTicker agg ticker =
     (let intervalDuration = 1 * Minute_d;
          tickerTime = UnixMilli (t_Timestamp ticker);
          currentKlineStart = Truncate tickerTime intervalDuration;
          agg1 =
            (if \<not> IsZero (k_StartTime (Current agg))
                  \<and> currentKlineStart > k_StartTime (Current agg)
             then
               let completedKLine = Current agg;
                   a = agg \<lparr> Current :=
                         \<lparr> k_Symbol = agg_Symbol agg, k_Interval = agg_Interval agg,
                           k_Open = k_Close (Current agg),
                           k_High = t_Price ticker, k_Low = t_Price ticker,
                           k_Close = 0, k_Volume = 0,
                           k_StartTime = currentKlineStart,
                           k_EndTime = currentKlineStart + intervalDuration + (- Millisecond) \<rparr> \<rparr>
               in a \<lparr> OutChan := fst (try_send (OutChan a) completedKLine) \<rparr>
             else agg);
          agg2 =
            (if IsZero (k_StartTime (Current agg1))
             then agg1 \<lparr> Current :=
                    \<lparr> k_Symbol = agg_Symbol agg1, k_Interval = agg_Interval agg1,
                      k_Open = t_Price ticker,
                      k_High = t_Price ticker, k_Low = t_Price ticker,
                      k_Close = 0, k_Volume = 0,
                      k_StartTime = currentKlineStart,
                      k_EndTime = currentKlineStart + intervalDuration + (- Millisecond) \<rparr> \<rparr>
             else agg1);
          c = Current agg2
      in agg2 \<lparr> Current := c \<lparr> k_Close := t_Price ticker,
                                k_High := max (k_High c) (t_Price ticker),
                                k_Low := min (k_Low c) (t_Price ticker),
                                k_Volume := k_Volume c + t_Volume ticker \<rparr> \<rparr>)"

text \<open>The loop of \<open>Run\<close> over the ticks the aggregator reads, in order.\<close>

definition Run :: "KlineAggregator \<Rightarrow> Ticker list \<Rightarrow> KlineAggregator" where
  "Run agg tickers =
     foldl (\<lambda>a ticker. if t_Symbol ticker \<noteq> agg_Symbol a then a else ProcessTicker a ticker)
       agg tickers"

text \<open>
  \<open>service.FormatInterval\<close>, on a duration in milliseconds; \<open>decimal\<close> prints a natural
  number as \<open>%d\<close> does (up to 21 digits). The last branch of the source returns
  \<open>d.String()\<close>; no interval of the engine reaches it, and it is written here as the
  count of milliseconds.
\<close>

definition digit_of :: "nat \<Rightarrow> char" where
  "digit_of n = ''0123456789'' ! (n mod 10)"

fun decimal :: "nat \<Rightarrow> nat \<Rightarrow> string" where
  "decimal 0 n = [digit_of (n mod 10)]"
| "decimal (Suc k) n = (if n < 10 then [digit_of n] else decimal k (n div 10) @ [digit_of (n mod 10)])"

definition FormatInterval :: "int \<Rightarrow> string" where
  "FormatInterval d =
     (if d \<ge> Hour_d \<and> d mod Hour_d = 0 then decimal 20 (nat (d div Hour_d)) @ ''h''
      else if d \<ge> Minute_d \<and> d mod Minute_d = 0 then decimal 20 (nat (d div Minute_d)) @ ''m''
      else if d \<ge> 1000 \<and> d mod 1000 = 0 then decimal 20 (nat (d div 1000)) @ ''s''
      else decimal 20 (nat d) @ ''ms'')"

record DataEngine =
  klineChan :: "KLine chan"
  aggregators :: "(string \<times> KlineAggregator) list"
  intervals :: "int list"
  de_symbol :: string
  forwardTickerChan :: "Ticker chan"
  broadcasterTickerChan :: "Ticker chan"

text \<open>
  \<open>NewDataEngine\<close>. The struct literal sets \<open>klineChan\<close> and \<open>forwardTickerChan\<close> with
  \<open>make\<close>; it has no entry for \<open>broadcasterTickerChan\<close>, and no other statement of the
  package assigns that field: it keeps the zero value of a channel, nil.
\<close>

definition NewDataEngine :: "string \<Rightarrow> DataEngine" where
  "NewDataEngine symbol =
     (let ivs = [1 * Minute_d, 5 * Minute_d, 15 * Minute_d, 1 * Hour_d, 4 * Hour_d];
          kc = Chan 100 []
      in \<lparr> klineChan = kc,
           aggregators = map (\<lambda>interval. (FormatInterval interval,
                               NewKlineAggregator symbol (FormatInterval interval) kc)) ivs,
           intervals = ivs,
           de_symbol = symbol,
           forwardTickerChan = Chan 1000 [],
           broadcasterTickerChan = NilChan \<rparr>)"

text \<open>One turn of the main loop of \<open>Start\<close>, and the loop over the ticks received.\<close>

definition Start_step :: "DataEngine \<Rightarrow> Ticker \<Rightarrow> DataEngine" where
  "Start_step de ticker =
     (if t_Symbol ticker \<noteq> de_symbol de then de
      else
        let de1 = de \<lparr> forwardTickerChan := fst (try_send (forwardTickerChan de) ticker) \<rparr>
        in de1 \<lparr> broadcasterTickerChan := fst (try_send (broadcasterTickerChan de1) ticker) \<rparr>)"

definition Start :: "DataEngine \<Rightarrow> Ticker list \<Rightarrow> DataEngine" where
  "Start de tickers = foldl Start_step de tickers"

definition GetBroadcasterTickerChannel :: "DataEngine \<Rightarrow> Ticker chan" where
  "GetBroadcasterTickerChannel de = broadcasterTickerChan de"

section \<open>Signal generator (package strategy)\<close>

text \<open>
  The repository holds two bodies of \<open>calculateRiskAndSize\<close> under the method
  \<open>GenerateSignal\<close>: the one with the configured multipliers, the scale factor and the
  minimum size (the text after the state machine in internal/strategy/state\_machine.go,
  lines 370 to 458), and an earlier one with the constants 1.5 and no scaling
  (internal/strategy/signal\_generator.go, lines 365 to 430), kept here as
  \<open>calculateRiskAndSize_fixed\<close>. \<open>GenerateSignal\<close>, \<open>generateOpenSignal\<close> and
  \<open>generateCloseSignal\<close> are those of the former.
\<close>

record RiskConfig =
  MaxTotalCapital :: real
  MaxPerTradeRisk :: real
  FixedLeverage :: int
  rc_Symbol :: string
  QuoteCurrency :: string
  PositionScaleFactor :: real
  DefaultStopLossATRMultiplier :: real
  DefaultRiskRewardRatio :: real
  MinPositionSize :: real

record TAData =
  ta_Symbol :: string
  ta_Close :: "real list"
  ta_High :: "real list"
  ta_Low :: "real list"
  ta_Volume :: "real list"
  MA :: real
  RSI :: real
  BBandsUp :: real
  BBandsDn :: real
  ATR :: real
  MACDHist :: "real list"
  MACD :: "real list"

text \<open>
  What the \<open>executor.Executor\<close> interface answers during one call of \<open>GenerateSignal\<close>:
  \<open>GetBalance\<close> and \<open>GetTradeHistory\<close> return a value or an error (\<open>Inl\<close>),
  \<open>GetMaxEquity\<close> a value. The field \<open>executor\<close> of the generator is an interface value:
  \<open>None\<close> is nil, which \<open>NewSignalGenerator\<close> leaves it at.
\<close>

record Executor =
  GetBalance :: "string + real"
  GetMaxEquity :: real
  GetTradeHistory :: "string + TradeRecord list"

record SignalGenerator =
  riskCfg :: RiskConfig
  executor :: "Executor option"

datatype panic = NilDereference | IndexOutOfRange

definition NewSignalGenerator :: "RiskConfig \<Rightarrow> SignalGenerator" where
  "NewSignalGenerator rc = \<lparr> riskCfg = rc, executor = None \<rparr>"

text \<open>
  \<open>calculateRiskAndSize\<close>. \<open>atrFactor\<close> is the variadic parameter (a slice); \<open>now\<close> stands
  for \<open>time.Now()\<close>. The signal built on success has no \<open>Action\<close>, \<open>Symbol\<close>,
  \<open>SourceState\<close> or \<open>Reason\<close>: they keep their zero values.
\<close>

definition calculateRiskAndSize ::
  "RiskConfig \<Rightarrow> Time \<Rightarrow> Direction \<Rightarrow> real \<Rightarrow> real \<Rightarrow> real list \<Rightarrow> Signal" where
  "calculateRiskAndSize rc now dir entryPrice atr atrFactor =
     (let factor = (case atrFactor of [] \<Rightarrow> DefaultStopLossATRMultiplier rc | f # fs \<Rightarrow> f);
          defaultRRFactor = DefaultRiskRewardRatio rc;
          slDistance = atr * factor;
          stopLossPrice = (if dir = DirLong then entryPrice - slDistance
                           else entryPrice + slDistance)
      in if stopLossPrice \<le> 0 then Signal_None
         else
           let maxRisk = MaxTotalCapital rc * MaxPerTradeRisk rc
           in if maxRisk \<le> 0 then Signal_None
              else
                let priceDifference = \<bar>entryPrice - stopLossPrice\<bar>
                in if priceDifference = 0 \<or> slDistance = 0 then Signal_None
                   else
                     let positionSize = maxRisk / priceDifference;
                         tpDistance = slDistance * defaultRRFactor;
                         takeProfitPrice = (if dir = DirLong then entryPrice + tpDistance
                                            else entryPrice - tpDistance);
                         finalPositionSize = positionSize * PositionScaleFactor rc
                     in if finalPositionSize < MinPositionSize rc then Signal_None
                        else \<lparr> sig_Symbol = [], sig_Timestamp = now, sig_Action = [],
                               sig_Direction = dir, sig_Price = entryPrice,
                               sig_RiskedUSD = maxRisk, sig_PositionSize = finalPositionSize,
                               sig_StopLossPrice = stopLossPrice,
                               sig_TakeProfitPrice = takeProfitPrice,
                               sig_SourceState = [], sig_Reason = [] \<rparr>)"

definition calculateRiskAndSize_fixed ::
  "RiskConfig \<Rightarrow> Time \<Rightarrow> Direction \<Rightarrow> real \<Rightarrow> real \<Rightarrow> real list \<Rightarrow> Signal" where
  "calculateRiskAndSize_fixed rc now dir entryPrice atr atrFactor =
     (let factor = (case atrFactor of [] \<Rightarrow> 1.5 | f # fs \<Rightarrow> f);
          slDistance = atr * factor;
          stopLossPrice = (if dir = DirLong then entryPrice - slDistance
                           else entryPrice + slDistance)
      in if stopLossPrice \<le> 0 then Signal_None
         else
           let maxRisk = MaxTotalCapital rc * MaxPerTradeRisk rc;
               priceDifference = \<bar>entryPrice - stopLossPrice\<bar>
           in if priceDifference = 0 then Signal_None
              else
                let positionSize = maxRisk / priceDifference;
                    rrFactor = 1.5;
                    tpDistance = slDistance * rrFactor;
                    takeProfitPrice = (if dir = DirLong then entryPrice + tpDistance
                                       else entryPrice - tpDistance)
                in \<lparr> sig_Symbol = [], sig_Timestamp = now, sig_Action = [],
                     sig_Direction = [], sig_Price = entryPrice,
                     sig_RiskedUSD = maxRisk, sig_PositionSize = positionSize,
                     sig_StopLossPrice = stopLossPrice,
                     sig_TakeProfitPrice = takeProfitPrice,
                     sig_SourceState = [], sig_Reason = [] \<rparr>)"

text \<open>
  \<open>generateOpenSignal\<close>. \<open>m5Data\<close> is a pointer: \<open>None\<close> is nil. Each rule assigns
  \<open>Action\<close>, \<open>Symbol\<close>, \<open>Direction\<close>, \<open>SourceState\<close> and \<open>Reason\<close> on whatever
  \<open>calculateRiskAndSize\<close> returned, and returns it.
\<close>

definition tag_open :: "Signal \<Rightarrow> string \<Rightarrow> Direction \<Rightarrow> MarketState \<Rightarrow> string \<Rightarrow> Signal" where
  "tag_open riskSignal symbol dir state reason =
     riskSignal \<lparr> sig_Action := ActionOpen, sig_Symbol := symbol, sig_Direction := dir,
                  sig_SourceState := state, sig_Reason := reason \<rparr>"

definition generateOpenSignal ::
  "RiskConfig \<Rightarrow> Time \<Rightarrow> MarketState \<Rightarrow> TAData option \<Rightarrow> real \<Rightarrow> Signal" where
  "generateOpenSignal rc now state m5Data currentPrice =
     (case m5Data of
        None \<Rightarrow> Signal_None
      | Some d \<Rightarrow>
          let lastATR = ATR d;
              ruleB =
                (if state = StateLowVolRanging \<and> currentPrice < BBandsDn d \<and> RSI d < 50
                 then tag_open (calculateRiskAndSize rc now DirLong currentPrice (ATR d) [0.7])
                        (ta_Symbol d) DirLong state ''Low Vol Ranging: BBands DN Bounce''
                 else Signal_None)
          in if state = StateStrongUpTrend then
               (if currentPrice > MA d
                then tag_open (calculateRiskAndSize rc now DirLong currentPrice lastATR [0.0])
                       (ta_Symbol d) DirLong state ''Strong Up Trend: MA Breakout Confirmation''
                else ruleB)
             else if state = StateStrongDownTrend then
               (if currentPrice < MA d
                then tag_open (calculateRiskAndSize rc now DirShort currentPrice lastATR [0.0])
                       (ta_Symbol d) DirShort state ''Strong Down Trend: MA Breakout Confirmation''
                else ruleB)
             else ruleB)"

text \<open>
  \<open>generateCloseSignal\<close>. Indexing \<open>MACDHist\<close> at \<open>len - 1\<close> and \<open>len - 2\<close> panics on a
  slice that is too short; the second index is only evaluated where the source's
  short-circuit operators reach it.
\<close>

definition macd_cross :: "MarketState \<Rightarrow> real list \<Rightarrow> bool \<Rightarrow> panic + bool" where
  "macd_cross marketState hist long =
     (if marketState = StateLowVolRanging then Inr True
      else if (if long then last hist < 0 else last hist > 0) then
        (if length hist < 2 then Inl IndexOutOfRange
         else Inr (if long then hist ! (length hist - 2) \<ge> 0
                   else hist ! (length hist - 2) \<le> 0))
      else Inr False)"

definition generateCloseSignal ::
  "MarketState \<Rightarrow> Position \<Rightarrow> TAData option \<Rightarrow> real \<Rightarrow> panic + Signal" where
  "generateCloseSignal marketState currentPosition m5Data currentPrice =
     (if p_Direction currentPosition = DirFlat then Inr Signal_None
      else case m5Data of
        None \<Rightarrow> Inr Signal_None
      | Some d \<Rightarrow>
          if MACDHist d = [] then Inl IndexOutOfRange
          else
            let lastRSI = RSI d;
                trend =
                  (if p_Direction currentPosition = DirLong
                     then macd_cross marketState (MACDHist d) True
                   else if p_Direction currentPosition = DirShort
                     then macd_cross marketState (MACDHist d) False
                   else Inr False)
            in case trend of
                 Inl p \<Rightarrow> Inl p
               | Inr isTrendExit \<Rightarrow>
                   let reason1 = (if isTrendExit then ''Trend exhaustion/reversal detected.'' else []);
                       isMeanExit = (p_SourceState currentPosition = StateLowVolRanging
                                     \<and> lastRSI > 45 \<and> lastRSI < 55);
                       reason = (if isMeanExit
                                 then ''Mean reversion success: RSI returned to equilibrium.''
                                 else reason1)
                   in if isTrendExit \<or> isMeanExit
                      then Inr (Signal_None \<lparr> sig_Action := ActionClose,
                                  sig_Symbol := p_InstID currentPosition,
                                  sig_PositionSize := 0, sig_Price := currentPrice,
                                  sig_Reason := reason \<rparr>)
                      else Inr Signal_None)"

text \<open>
  \<open>calculateRecentLosses\<close>: the longest run of losing trades among the last
  \<open>LookbackTrades\<close> records, scanned oldest first; the pair is
  (\<open>maxConsecutiveLosses\<close>, \<open>currentConsecutiveLosses\<close>).
\<close>

definition LookbackTrades :: int where "LookbackTrades = 10"

definition loss_step :: "nat \<times> nat \<Rightarrow> TradeRecord \<Rightarrow> nat \<times> nat" where
  "loss_step st record =
     (let netPnL = tr_RealizedPnL record - tr_Fee record;
          cur = (if netPnL < 0 then snd st + 1 else 0)
      in (if cur > fst st then cur else fst st, cur))"

definition calculateRecentLosses :: "TradeRecord list \<Rightarrow> nat" where
  "calculateRecentLosses records =
     (if length records = 0 then 0
      else
        let startIndex0 = int (length records) - LookbackTrades;
            startIndex = (if startIndex0 < 0 then 0 else startIndex0)
        in fst (foldl loss_step (0, 0) (drop (nat startIndex) records)))"

text \<open>
  The quotient of two floats where the divisor may be zero, as IEEE 754 gives it, and
  the two comparisons the adaptation makes on it (every comparison with NaN is false).
\<close>

datatype xfloat = Fin real | PosInf | NegInf | NaN

definition fdiv :: "real \<Rightarrow> real \<Rightarrow> xfloat" where
  "fdiv x y = (if y = 0 then (if x > 0 then PosInf else if x < 0 then NegInf else NaN)
               else Fin (x / y))"

fun x_ge :: "xfloat \<Rightarrow> real \<Rightarrow> bool" where
  "x_ge (Fin x) c = (x \<ge> c)"
| "x_ge PosInf c = True"
| "x_ge NegInf c = False"
| "x_ge NaN c = False"

fun x_lt :: "xfloat \<Rightarrow> real \<Rightarrow> bool" where
  "x_lt (Fin x) c = (x < c)"
| "x_lt PosInf c = False"
| "x_lt NegInf c = True"
| "x_lt NaN c = False"

text \<open>
  The adaptation of \<open>GenerateSignal\<close> (its first part). \<open>adjustFactor\<close> is the branch
  taken with more than ten records: the three prioritised adjustments, then the final
  clamp. \<open>adaptation\<close> is the whole block under \<open>isAdaptationTime\<close>: it calls the
  executor, which panics on a nil interface.
\<close>

definition adjustFactor :: "RiskConfig \<Rightarrow> real \<Rightarrow> real \<Rightarrow> TradeRecord list \<Rightarrow> RiskConfig" where
  "adjustFactor rc currentEquity maxEq records =
     (let recentLossCount = calculateRecentLosses records;
          currentDrawdown = fdiv (maxEq - currentEquity) maxEq;
          rc1 =
            (if x_ge currentDrawdown MaxAllowedDrawdown
               then rc \<lparr> PositionScaleFactor := MinScaleFactor \<rparr>
             else if recentLossCount \<ge> LossStreakThreshold then
               (let r = rc \<lparr> PositionScaleFactor := PositionScaleFactor rc * 0.85 \<rparr>
                in if PositionScaleFactor r < MinScaleFactor
                   then r \<lparr> PositionScaleFactor := MinScaleFactor \<rparr> else r)
             else if recentLossCount = 0 \<and> x_lt currentDrawdown (MaxAllowedDrawdown / 2)
                     \<and> PositionScaleFactor rc < MaxScaleFactor then
               (let r = rc \<lparr> PositionScaleFactor := PositionScaleFactor rc * 1.05 \<rparr>
                in if PositionScaleFactor r > MaxScaleFactor
                   then r \<lparr> PositionScaleFactor := MaxScaleFactor \<rparr> else r)
             else rc)
      in rc1 \<lparr> PositionScaleFactor :=
                 max MinScaleFactor (min MaxScaleFactor (PositionScaleFactor rc1)) \<rparr>)"

definition adaptation :: "SignalGenerator \<Rightarrow> panic + SignalGenerator" where
  "adaptation sg =
     (case executor sg of
        None \<Rightarrow> Inl NilDereference
      | Some ex \<Rightarrow>
          (case GetBalance ex of
             Inl errEquity \<Rightarrow> Inr sg
           | Inr currentEquity \<Rightarrow>
               (case GetTradeHistory ex of
                  Inl errRecords \<Rightarrow> Inr sg
                | Inr records \<Rightarrow>
                    if length records > 10
                    then Inr (sg \<lparr> riskCfg :=
                                adjustFactor (riskCfg sg) currentEquity (GetMaxEquity ex) records \<rparr>)
                    else Inr sg)))"

definition isAdaptationTime :: "int \<Rightarrow> KLine \<Rightarrow> bool" where
  "isAdaptationTime loc kline =
     (let isHourlyKLine = (k_Interval kline = ''1h'')
      in isHourlyKLine \<and> Minute loc (k_EndTime kline) = 0)"

text \<open>
  \<open>GenerateSignal\<close>. \<open>loc\<close> is the offset from UTC of the location the candle's times
  carry; \<open>m5\<close> is what \<open>taClient.GetTAData("5m")\<close> returns (\<open>None\<close> for its error),
  \<open>currentState\<close> what \<open>state.GetCurrentState()\<close> returns. The result is the signal and
  the generator with its risk configuration as the call leaves it, or a panic.
\<close>

definition GenerateSignal ::
  "SignalGenerator \<Rightarrow> int \<Rightarrow> Time \<Rightarrow> TAData option \<Rightarrow> MarketState \<Rightarrow> KLine \<Rightarrow> Position
     \<Rightarrow> panic + (Signal \<times> SignalGenerator)" where
  "GenerateSignal sg loc now m5 currentState kline currentPosition =
     (case (if isAdaptationTime loc kline then adaptation sg else Inr sg) of
        Inl p \<Rightarrow> Inl p
      | Inr sg1 \<Rightarrow>
          if k_Interval kline \<noteq> ''5m'' then Inr (Signal_None, sg1)
          else case m5 of
            None \<Rightarrow> Inr (Signal_None, sg1)
          | Some d \<Rightarrow>
              if p_Direction currentPosition = DirFlat
              then Inr (generateOpenSignal (riskCfg sg1) now currentState (Some d) (k_Close kline), sg1)
              else case generateCloseSignal currentState currentPosition (Some d) (k_Close kline) of
                     Inl p \<Rightarrow> Inl p
                   | Inr s \<Rightarrow> Inr (s, sg1))"

section \<open>Concrete inputs\<close>

definition sim_cfg_nofee :: SimulatorConfig where
  "sim_cfg_nofee = \<lparr> InitialCapital = 10000, Leverage = 10, FeeRate = 0 \<rparr>"

definition sim_cfg_fee :: SimulatorConfig where
  "sim_cfg_fee = \<lparr> InitialCapital = 10000, Leverage = 10, FeeRate = 0.0005 \<rparr>"

definition open_long_100 :: Signal where
  "open_long_100 = Signal_None \<lparr> sig_Symbol := ''BTC-USDT'', sig_Action := ActionOpen,
     sig_Direction := DirLong, sig_Price := 50000, sig_PositionSize := 100,
     sig_StopLossPrice := 49000, sig_TakeProfitPrice := 51500 \<rparr>"

definition open_short_50 :: Signal where
  "open_short_50 = Signal_None \<lparr> sig_Symbol := ''BTC-USDT'', sig_Action := ActionOpen,
     sig_Direction := DirShort, sig_Price := 50000, sig_PositionSize := 50 \<rparr>"

definition close_all :: Signal where
  "close_all = Signal_None \<lparr> sig_Action := ActionClose \<rparr>"

definition tick_at :: "int \<Rightarrow> real \<Rightarrow> Ticker" where
  "tick_at ts p = \<lparr> t_Symbol = ''BTC-USDT'', t_Timestamp = ts, t_Price = p, t_Volume = 1,
     t_IsBuyerMaker = False \<rparr>"

definition risk_cfg_scenario :: RiskConfig where
  "risk_cfg_scenario = \<lparr> MaxTotalCapital = 10000, MaxPerTradeRisk = 0.01, FixedLeverage = 10,
     rc_Symbol = ''BTC-USDT'', QuoteCurrency = ''USDT'', PositionScaleFactor = 1.0,
     DefaultStopLossATRMultiplier = 1.5, DefaultRiskRewardRatio = 1.5,
     MinPositionSize = 0.001 \<rparr>"

definition risk_cfg_min100 :: RiskConfig where
  "risk_cfg_min100 = risk_cfg_scenario \<lparr> MinPositionSize := 100 \<rparr>"

definition ta_low_vol :: TAData where
  "ta_low_vol = \<lparr> ta_Symbol = ''BTC-USDT'', ta_Close = [100], ta_High = [100], ta_Low = [100],
     ta_Volume = [1], MA = 102, RSI = 40, BBandsUp = 105, BBandsDn = 101, ATR = 2,
     MACDHist = [0, 0], MACD = [0, 0] \<rparr>"

definition kline_5m :: KLine where
  "kline_5m = \<lparr> k_Symbol = ''BTC-USDT'', k_Interval = ''5m'', k_Open = 100, k_High = 100,
     k_Low = 100, k_Close = 100, k_Volume = 1, k_StartTime = 0, k_EndTime = 59999 \<rparr>"

text \<open>
  An hourly candle as the data model defines it (00:00:00.000 to 00:59:59.999 of
  1 January 1970, UTC), and the candle the aggregator labelled \<open>1h\<close> emits for the
  first minute of that hour.
\<close>

definition kline_hourly :: KLine where
  "kline_hourly = \<lparr> k_Symbol = ''BTC-USDT'', k_Interval = ''1h'', k_Open = 100, k_High = 100,
     k_Low = 100, k_Close = 100, k_Volume = 1, k_StartTime = 0, k_EndTime = 3599999 \<rparr>"

definition kline_1h_first_minute :: KLine where
  "kline_1h_first_minute = kline_hourly \<lparr> k_EndTime := 59999 \<rparr>"

definition no_position :: Position where
  "no_position = \<lparr> p_InstID = ''Default'', p_Direction = DirFlat, p_Size = 0, p_AvgPrice = 0,
     p_UPL = 0, p_EntryTime = zero_time, p_SourceState = [] \<rparr>"

definition losing_trade :: TradeRecord where
  "losing_trade = \<lparr> tr_EntryTime = 0, tr_ExitTime = 60000, tr_Symbol = ''BTC-USDT'',
     tr_PosSide = DirLong, tr_EntryPrice = 100, tr_ExitPrice = 99, tr_Size = 1,
     tr_RealizedPnL = - 1, tr_Fee = 0.1, tr_TriggerReason = ''SL'' \<rparr>"

text \<open>An executor at equity 80 under a peak of 100 (drawdown 0.2), with eleven trades.\<close>

definition executor_drawdown :: Executor where
  "executor_drawdown = \<lparr> GetBalance = Inr 80, GetMaxEquity = 100,
     GetTradeHistory = Inr (replicate 11 losing_trade) \<rparr>"

definition sg_scenario :: SignalGenerator where
  "sg_scenario = \<lparr> riskCfg = risk_cfg_scenario, executor = Some executor_drawdown \<rparr>"

definition sg_min100 :: SignalGenerator where
  "sg_min100 = \<lparr> riskCfg = risk_cfg_min100, executor = None \<rparr>"

section \<open>Execution engine: what a signal does to the account\<close>

lemmas exec_defs = ExecuteSignal_def execute_all_def execute_or_keep_def updateEquity_def
  calculateClosedPnL_def calculateLiquidationPrice_def NewSimulatorExecutor_def flat_position_def
  Signal_None_def UnixMilli_def Let_def

lemmas exec_input_defs = sim_cfg_nofee_def sim_cfg_fee_def open_long_100_def open_short_50_def
  close_all_def

text \<open>\<open>ExecuteSignal\<close> never writes the last price or the configuration.\<close>

lemma ExecuteSignal_keeps_price:
  "ExecuteSignal e s = Inr e' \<Longrightarrow> lastPrice e' = lastPrice e \<and> cfg e' = cfg e"
  by (auto simp: ExecuteSignal_def updateEquity_def Let_def split: if_splits)

lemma execute_or_keep_keeps_price:
  "lastPrice (execute_or_keep e s) = lastPrice e \<and> cfg (execute_or_keep e s) = cfg e"
  by (auto simp: execute_or_keep_def dest: ExecuteSignal_keeps_price split: sum.splits)

lemma execute_all_keeps_price:
  "lastPrice (execute_all e ss) = lastPrice e \<and> cfg (execute_all e ss) = cfg e"
  unfolding execute_all_def
  by (induction ss arbitrary: e) (simp_all add: execute_or_keep_keeps_price)

text \<open>The monitor is the writer of the last price: each tick it reads sets it.\<close>

lemma StartMonitor_step_sets_price:
  "lastPrice (StartMonitor_step e ticker) = t_Price ticker"
  by (simp add: StartMonitor_step_def updateEquity_def Let_def)

text \<open>
  What an accepted Open does, whatever the position held before it: the position is
  replaced by the signal's, the margin is overwritten, the entry fee is taken from the
  balance (the margin is not), and the trade history is left alone.
\<close>

lemma open_effect:
  assumes "sig_Action s = ActionOpen" and "ExecuteSignal e s = Inr e'"
  shows "tradeHistory e' = tradeHistory e \<and> pos_Side (position e') = sig_Direction s
    \<and> pos_Size (position e') = sig_PositionSize s
    \<and> pos_AvgPrice (position e') = lastPrice e
    \<and> marginUsed e' = sig_PositionSize s * lastPrice e / Leverage (cfg e)
    \<and> balance e' = balance e - sig_PositionSize s * lastPrice e * FeeRate (cfg e)"
  using assms
  by (auto simp: ExecuteSignal_def updateEquity_def Let_def split: if_splits)

text \<open>
  Open then Close at one price and fee rate zero, from any flat state: one record is
  appended, its realised PnL is zero, and the balance ends above where it started by the
  margin of the position.
\<close>

lemma roundtrip_zero_fee:
  assumes "pos_Side (position e) = DirFlat" and "FeeRate (cfg e) = 0"
    and "sig_Action so = ActionOpen" and "sig_Direction so \<noteq> DirFlat"
    and "sig_Action sc = ActionClose"
    and "ExecuteSignal e so = Inr e1" and "ExecuteSignal e1 sc = Inr e2"
  shows "tradeHistory e2 = tradeHistory e @ [last (tradeHistory e2)]
     \<and> tr_RealizedPnL (last (tradeHistory e2)) = 0
     \<and> balance e2 = balance e + sig_PositionSize so * lastPrice e / Leverage (cfg e)"
  using assms
  by (auto simp: ExecuteSignal_def updateEquity_def calculateClosedPnL_def Let_def
           split: if_splits)

text \<open>
  C1. The claim: with fee rate 0, from a flat position and balance B, an executed Open
  followed by a Close at the same last price appends a trade record with realised PnL 0
  and leaves the balance equal to B. On the code the record and its PnL are as claimed,
  the balance is not: Open records the margin without taking it from the balance, Close
  adds the margin to the balance. From the initial state with capital 10000, leverage 10
  and fee rate 0 (last price 1.0), opening 100 units long is accepted, and after the
  Close the history is one record with PnL 0 and the balance is 10010, not 10000.
\<close>

theorem C1_roundtrip_balance_gains_margin:
  "\<not> isl (ExecuteSignal (NewSimulatorExecutor sim_cfg_nofee) open_long_100)
   \<and> pos_Side (position (NewSimulatorExecutor sim_cfg_nofee)) = DirFlat
   \<and> balance (NewSimulatorExecutor sim_cfg_nofee) = 10000
   \<and> map tr_RealizedPnL
        (tradeHistory (execute_all (NewSimulatorExecutor sim_cfg_nofee) [open_long_100, close_all]))
      = [0]
   \<and> balance (execute_all (NewSimulatorExecutor sim_cfg_nofee) [open_long_100, close_all])
      = 10010"
  by (simp add: exec_defs exec_input_defs)

text \<open>
  C6. The claim: an Open signal executed while the position is not flat leaves the
  position, the balance, the margin used and the trade history unchanged. The Open
  branch of \<open>ExecuteSignal\<close> does not look at the position held. With capital 10000,
  leverage 10 and fee rate 0.0005: after opening 100 long the position is long 100,
  margin 10, balance 9999.95; a second Open, 50 short, is executed on top of it and
  leaves the position short 50, margin 5 and balance 9999.925. Only the history is
  unchanged.
\<close>

theorem C6_open_replaces_held_position:
  "pos_Side (position (execute_all (NewSimulatorExecutor sim_cfg_fee) [open_long_100])) = DirLong
   \<and> pos_Size (position (execute_all (NewSimulatorExecutor sim_cfg_fee) [open_long_100])) = 100
   \<and> marginUsed (execute_all (NewSimulatorExecutor sim_cfg_fee) [open_long_100]) = 10
   \<and> balance (execute_all (NewSimulatorExecutor sim_cfg_fee) [open_long_100]) = 9999.95
   \<and> pos_Side (position (execute_all (NewSimulatorExecutor sim_cfg_fee)
        [open_long_100, open_short_50])) = DirShort
   \<and> pos_Size (position (execute_all (NewSimulatorExecutor sim_cfg_fee)
        [open_long_100, open_short_50])) = 50
   \<and> marginUsed (execute_all (NewSimulatorExecutor sim_cfg_fee)
        [open_long_100, open_short_50]) = 5
   \<and> balance (execute_all (NewSimulatorExecutor sim_cfg_fee)
        [open_long_100, open_short_50]) = 9999.925
   \<and> tradeHistory (execute_all (NewSimulatorExecutor sim_cfg_fee)
        [open_long_100, open_short_50]) = []"
  by (simp add: exec_defs exec_input_defs)

text \<open>
  C10. Before the monitor has read a tick the last price is the 1.0 of the constructor,
  and signals executed in between do not change it. An Open that \<open>ExecuteSignal\<close>
  executes in such a state (after any signals \<open>sigs\<close>, none of whose errors stops the
  caller) is filled at 1.0: the stored average price is 1.0 and the margin is
  size * 1.0 / leverage, whatever price the signal quotes.
\<close>

theorem C10_first_fill_at_initial_price:
  assumes "sig_Action signal = ActionOpen"
    and "ExecuteSignal (execute_all (NewSimulatorExecutor c) sigs) signal = Inr e'"
  shows "pos_AvgPrice (position e') = 1
     \<and> marginUsed e' = sig_PositionSize signal * 1 / Leverage c"
proof -
  let ?e = "execute_all (NewSimulatorExecutor c) sigs"
  have lp: "lastPrice ?e = 1" and cf: "cfg ?e = c"
    using execute_all_keeps_price [of "NewSimulatorExecutor c" sigs]
    by (simp_all add: NewSimulatorExecutor_def)
  from assms lp cf show ?thesis
    by (auto simp: ExecuteSignal_def updateEquity_def Let_def split: if_splits)
qed

theorem C10_first_fill_at_initial_price_witness:
  "sig_Action open_long_100 = ActionOpen
   \<and> sig_Price open_long_100 = 50000
   \<and> ExecuteSignal (execute_all (NewSimulatorExecutor sim_cfg_fee) []) open_long_100
       = Inr (execute_all (NewSimulatorExecutor sim_cfg_fee) [open_long_100])
   \<and> pos_AvgPrice (position (execute_all (NewSimulatorExecutor sim_cfg_fee) [open_long_100])) = 1
   \<and> marginUsed (execute_all (NewSimulatorExecutor sim_cfg_fee) [open_long_100])
       = 100 * 1 / 10"
proof -
  have a: "sig_Action open_long_100 = ActionOpen"
    by (simp add: open_long_100_def)
  have p: "sig_Price open_long_100 = 50000"
    by (simp add: open_long_100_def)
  have r: "ExecuteSignal (execute_all (NewSimulatorExecutor sim_cfg_fee) []) open_long_100
             = Inr (execute_all (NewSimulatorExecutor sim_cfg_fee) [open_long_100])"
    by (simp add: exec_defs exec_input_defs)
  have v: "sig_PositionSize open_long_100 = 100" "Leverage sim_cfg_fee = 10"
    by (simp_all add: open_long_100_def sim_cfg_fee_def)
  from C10_first_fill_at_initial_price [OF a r] v a p r show ?thesis
    by simp
qed

section \<open>Streaming engine: the broadcast channel\<close>

lemma Start_step_keeps_nil:
  "broadcasterTickerChan de = NilChan \<Longrightarrow> broadcasterTickerChan (Start_step de t) = NilChan"
  by (simp add: Start_step_def Let_def)

lemma Start_keeps_nil:
  "broadcasterTickerChan de = NilChan \<Longrightarrow> broadcasterTickerChan (Start de ts) = NilChan"
  unfolding Start_def
  by (induction ts arbitrary: de) (simp_all add: Start_step_keeps_nil)

text \<open>
  One accepted tick on a fresh engine: the forward channel, which the constructor
  makes, holds it; the broadcast channel holds nothing.
\<close>

lemma accepted_tick_forwarded_not_broadcast:
  "t_Symbol (tick_at 0 100) = de_symbol (NewDataEngine ''BTC-USDT'')
   \<and> queued (forwardTickerChan (Start (NewDataEngine ''BTC-USDT'') [tick_at 0 100]))
       = [tick_at 0 100]
   \<and> queued (GetBroadcasterTickerChannel (Start (NewDataEngine ''BTC-USDT'') [tick_at 0 100]))
       = []"
  by (simp add: Start_def Start_step_def NewDataEngine_def GetBroadcasterTickerChannel_def
        Let_def tick_at_def)

text \<open>
  C2. The claim: every tick of the engine's symbol is enqueued on the channel that
  \<open>GetBroadcasterTickerChannel\<close> returns whenever that queue is not full, so that the
  price monitor receives it. On the code the channel is never made: for an engine built
  by \<open>NewDataEngine\<close>, after any ticks the loop of \<open>Start\<close> has received, whatever their
  symbols, the channel returned is still nil and nothing is queued on it. Every send
  takes the default branch; the monitor, which ranges over this channel, reads no tick.
\<close>

theorem C2_broadcast_channel_stays_nil:
  "GetBroadcasterTickerChannel (Start (NewDataEngine symbol) tickers) = NilChan
   \<and> queued (GetBroadcasterTickerChannel (Start (NewDataEngine symbol) tickers)) = []"
  using Start_keeps_nil [of "NewDataEngine symbol" tickers]
  by (simp add: GetBroadcasterTickerChannel_def NewDataEngine_def Let_def)

section \<open>Candle aggregator\<close>

lemmas engine_defs = ProcessTicker_def NewKlineAggregator_def Truncate_def IsZero_def
  zero_time_def UnixMilli_def Minute_d_def Millisecond_def Let_def Run_def tick_at_def

text \<open>The engine labels its five aggregators as the spec's timeframes.\<close>

lemma aggregator_labels:
  "map fst (aggregators (NewDataEngine s)) = [''1m'', ''5m'', ''15m'', ''1h'', ''4h'']"
  by code_simp

text \<open>
  What \<open>ProcessTicker\<close> does keep, for every label: when the tick's minute is not
  before the candle in progress (as for ticks in time order), the candle in progress
  starts at the tick's time truncated to one minute and ends one minute less one
  millisecond later.
\<close>

lemma ProcessTicker_one_minute_bucket:
  assumes "IsZero (k_StartTime (Current agg))
           \<or> k_StartTime (Current agg) \<le> Truncate (UnixMilli (t_Timestamp ticker)) Minute_d"
    and "IsZero (k_StartTime (Current agg))
           \<or> k_EndTime (Current agg) = k_StartTime (Current agg) + Minute_d - Millisecond"
  shows "k_StartTime (Current (ProcessTicker agg ticker))
           = Truncate (UnixMilli (t_Timestamp ticker)) Minute_d
     \<and> k_EndTime (Current (ProcessTicker agg ticker))
           = k_StartTime (Current (ProcessTicker agg ticker)) + Minute_d - Millisecond"
  using assms by (auto simp: ProcessTicker_def Let_def)

text \<open>
  C3. The claim: for every timeframe T of 1m, 5m, 15m, 1h, 4h and every tick, the
  candle in progress starts at the tick's time truncated to T and ends at start + T - 1ms.
  On the code the duration is one minute for every aggregator. The aggregator labelled
  \<open>5m\<close>, given as its first tick one at 00:01:00.000 (60000 ms), holds a candle that
  starts at 60000 and ends at 119999; the tick's time truncated to five minutes is 0,
  and five minutes less a millisecond after the start is 359999.
\<close>

theorem C3_five_minute_candle_spans_one_minute:
  "k_Interval (Current (ProcessTicker (NewKlineAggregator ''BTC-USDT'' ''5m'' (Chan 100 []))
       (tick_at 60000 100))) = ''5m''
   \<and> k_StartTime (Current (ProcessTicker (NewKlineAggregator ''BTC-USDT'' ''5m'' (Chan 100 []))
       (tick_at 60000 100))) = 60000
   \<and> Truncate (UnixMilli (t_Timestamp (tick_at 60000 100))) (5 * Minute_d) = 0
   \<and> k_EndTime (Current (ProcessTicker (NewKlineAggregator ''BTC-USDT'' ''5m'' (Chan 100 []))
       (tick_at 60000 100))) = 119999
   \<and> 60000 + 5 * Minute_d - Millisecond = 359999"
  by (simp add: engine_defs)

text \<open>The half of the candle invariant that every call establishes.\<close>

lemma ProcessTicker_close_in_range:
  "k_Low (Current (ProcessTicker agg t)) \<le> k_Close (Current (ProcessTicker agg t))
   \<and> k_Close (Current (ProcessTicker agg t)) \<le> k_High (Current (ProcessTicker agg t))"
  by (simp add: ProcessTicker_def Let_def)

text \<open>
  C5. The claim: every candle in progress or emitted has low \<le> open \<le> high and
  low \<le> close \<le> high, also after the call that closes a bucket and opens the next
  candle at the previous close. On the code that call sets the new candle's open to the
  previous close and its high and low to the tick's price alone. The one-minute
  aggregator, given a tick at 00:00 with price 100 and a tick at 00:01 with price 105,
  emits the first candle (close 100) and holds a candle with open 100, low 105,
  high 105, close 105: its open is below its low.
\<close>

theorem C5_rollover_open_outside_range:
  "k_Open (Current (Run (NewKlineAggregator ''BTC-USDT'' ''1m'' (Chan 100 []))
       [tick_at 0 100, tick_at 60000 105])) = 100
   \<and> k_Low (Current (Run (NewKlineAggregator ''BTC-USDT'' ''1m'' (Chan 100 []))
       [tick_at 0 100, tick_at 60000 105])) = 105
   \<and> k_High (Current (Run (NewKlineAggregator ''BTC-USDT'' ''1m'' (Chan 100 []))
       [tick_at 0 100, tick_at 60000 105])) = 105
   \<and> k_Close (Current (Run (NewKlineAggregator ''BTC-USDT'' ''1m'' (Chan 100 []))
       [tick_at 0 100, tick_at 60000 105])) = 105
   \<and> map k_Close (queued (OutChan (Run (NewKlineAggregator ''BTC-USDT'' ''1m'' (Chan 100 []))
       [tick_at 0 100, tick_at 60000 105]))) = [100]
   \<and> \<not> k_Low (Current (Run (NewKlineAggregator ''BTC-USDT'' ''1m'' (Chan 100 []))
       [tick_at 0 100, tick_at 60000 105]))
       \<le> k_Open (Current (Run (NewKlineAggregator ''BTC-USDT'' ''1m'' (Chan 100 []))
       [tick_at 0 100, tick_at 60000 105]))"
  by (simp add: engine_defs)

section \<open>Risk sizing and open signals\<close>

lemmas risk_defs = calculateRiskAndSize_def calculateRiskAndSize_fixed_def Signal_None_def Let_def

text \<open>
  \<open>calculateRiskAndSize\<close> alone: a result other than the rejection carries the raw size
  times the scale factor, and that size is not below the minimum.
\<close>

lemma calculateRiskAndSize_size:
  assumes "calculateRiskAndSize rc now dir entry atr fs \<noteq> Signal_None"
  shows "sig_PositionSize (calculateRiskAndSize rc now dir entry atr fs)
       = MaxTotalCapital rc * MaxPerTradeRisk rc
           / \<bar>entry - sig_StopLossPrice (calculateRiskAndSize rc now dir entry atr fs)\<bar>
           * PositionScaleFactor rc
     \<and> MinPositionSize rc \<le> sig_PositionSize (calculateRiskAndSize rc now dir entry atr fs)"
  using assms by (auto simp: calculateRiskAndSize_def Let_def split: if_splits)

text \<open>
  A rule of \<open>generateOpenSignal\<close> that matches returns an Open signal whether or not
  the sizing rejected; the two trend rules pass the factor 0.0, on which the sizing
  always rejects, and so always return an Open signal of size zero.
\<close>

lemma matched_range_rule_emits_open:
  assumes "state = StateLowVolRanging" and "currentPrice < BBandsDn d" and "RSI d < 50"
  shows "sig_Action (generateOpenSignal rc now state (Some d) currentPrice) = ActionOpen"
  using assms by (simp add: generateOpenSignal_def tag_open_def Let_def)

lemma matched_trend_rule_size_zero:
  assumes "state = StateStrongUpTrend" and "currentPrice > MA d"
  shows "sig_Action (generateOpenSignal rc now state (Some d) currentPrice) = ActionOpen
     \<and> sig_PositionSize (generateOpenSignal rc now state (Some d) currentPrice) = 0"
  using assms
  by (simp add: generateOpenSignal_def tag_open_def Let_def calculateRiskAndSize_def
        Signal_None_def)

text \<open>
  C4. The claim: a sizing that does not reject gives the Open signal the size
  (max risk / |entry - stop|) * scale factor, and when the scaled size is below
  \<open>min_position_size\<close> the generator emits a None signal instead of an Open signal. The
  first half holds (\<open>calculateRiskAndSize_size\<close>). For the second, \<open>calculateRiskAndSize\<close>
  does return the None signal, and \<open>generateOpenSignal\<close> then sets its action to Open.
  With capital 10000, risk fraction 0.01, scale 1 and minimum size 100, in the low
  volatility range with close 100 below the lower band 101, RSI 40 and ATR 2: the scaled
  size is 100 / 1.4, about 71.4, below 100; the sizing returns None; \<open>GenerateSignal\<close>
  returns a signal with action Open and size 0.
\<close>

theorem C4_rejected_size_emitted_as_open:
  "sig_Action (calculateRiskAndSize risk_cfg_min100 0 DirLong 100 2 [0.7]) = ActionNone
   \<and> 10000 * 0.01 / \<bar>100 - (100 - 2 * 0.7)\<bar> * 1 < MinPositionSize risk_cfg_min100
   \<and> GenerateSignal sg_min100 0 0 (Some ta_low_vol) StateLowVolRanging kline_5m no_position
       = Inr (tag_open Signal_None ''BTC-USDT'' DirLong StateLowVolRanging
                ''Low Vol Ranging: BBands DN Bounce'', sg_min100)
   \<and> sig_Action (tag_open Signal_None ''BTC-USDT'' DirLong StateLowVolRanging
                ''Low Vol Ranging: BBands DN Bounce'') = ActionOpen
   \<and> sig_PositionSize (tag_open Signal_None ''BTC-USDT'' DirLong StateLowVolRanging
                ''Low Vol Ranging: BBands DN Bounce'') = 0"
  by (simp add: risk_defs risk_cfg_min100_def risk_cfg_scenario_def sg_min100_def
        GenerateSignal_def isAdaptationTime_def kline_5m_def ta_low_vol_def no_position_def
        generateOpenSignal_def tag_open_def)

text \<open>
  C7. The claim: entry 100, long, ATR 2, stop multiplier 1.5, capital 10000, risk
  fraction 0.01, risk-reward ratio 1.5, scale factor 1.0 give stop 97, take-profit 101.5,
  risked USD 100 and size 100/3. The code measures the take-profit distance from the
  entry, not from the stop: 100 + 3 * 1.5 = 104.5.
\<close>

theorem C7_take_profit_counterexample:
  "sig_TakeProfitPrice (calculateRiskAndSize risk_cfg_scenario 0 DirLong 100 2 []) = 104.5
   \<and> sig_TakeProfitPrice (calculateRiskAndSize risk_cfg_scenario 0 DirLong 100 2 []) \<noteq> 101.5"
  by (simp add: risk_defs risk_cfg_scenario_def)

text \<open>
  C7, amended. With entry price 100, long direction, ATR 2, stop multiplier 1.5,
  \<open>max_total_capital\<close> 10000, per-trade risk fraction 0.01, risk-reward ratio 1.5,
  scale factor 1.0 and a minimum position size of at most 100/3, the sizing called
  without a multiplier of the caller's returns stop-loss price 97, take-profit price
  104.5, risked USD 100 and position size 100/3. The earlier body, with its constants
  1.5, returns the same four values.
\<close>

theorem C7_scenario_amended:
  assumes "MaxTotalCapital rc = 10000" and "MaxPerTradeRisk rc = 0.01"
    and "DefaultStopLossATRMultiplier rc = 1.5" and "DefaultRiskRewardRatio rc = 1.5"
    and "PositionScaleFactor rc = 1.0" and "MinPositionSize rc \<le> 100 / 3"
  shows "sig_StopLossPrice (calculateRiskAndSize rc now DirLong 100 2 []) = 97
    \<and> sig_TakeProfitPrice (calculateRiskAndSize rc now DirLong 100 2 []) = 104.5
    \<and> sig_RiskedUSD (calculateRiskAndSize rc now DirLong 100 2 []) = 100
    \<and> sig_PositionSize (calculateRiskAndSize rc now DirLong 100 2 []) = 100 / 3
    \<and> sig_StopLossPrice (calculateRiskAndSize_fixed rc now DirLong 100 2 []) = 97
    \<and> sig_TakeProfitPrice (calculateRiskAndSize_fixed rc now DirLong 100 2 []) = 104.5
    \<and> sig_RiskedUSD (calculateRiskAndSize_fixed rc now DirLong 100 2 []) = 100
    \<and> sig_PositionSize (calculateRiskAndSize_fixed rc now DirLong 100 2 []) = 100 / 3"
  unfolding calculateRiskAndSize_def calculateRiskAndSize_fixed_def Let_def
  using assms(6) by (simp only: assms(1-5) list.case) simp

theorem C7_scenario_amended_witness:
  "MaxTotalCapital risk_cfg_scenario = 10000
   \<and> MinPositionSize risk_cfg_scenario \<le> 100 / 3
   \<and> sig_StopLossPrice (calculateRiskAndSize risk_cfg_scenario 0 DirLong 100 2 []) = 97
   \<and> sig_TakeProfitPrice (calculateRiskAndSize risk_cfg_scenario 0 DirLong 100 2 []) = 104.5
   \<and> sig_RiskedUSD (calculateRiskAndSize risk_cfg_scenario 0 DirLong 100 2 []) = 100
   \<and> sig_PositionSize (calculateRiskAndSize risk_cfg_scenario 0 DirLong 100 2 []) = 100 / 3"
  using C7_scenario_amended [of risk_cfg_scenario 0]
  by (simp add: risk_cfg_scenario_def)

section \<open>Adaptation of the position scale factor\<close>

text \<open>
  The branch that adjusts ends with the clamp: its result is within the bounds for any
  factor before it, any equity, any peak equity (zero included) and any history.
\<close>

lemma adjustFactor_in_bounds:
  "MinScaleFactor \<le> PositionScaleFactor (adjustFactor rc eq mx recs)
   \<and> PositionScaleFactor (adjustFactor rc eq mx recs) \<le> MaxScaleFactor"
  by (simp add: adjustFactor_def Let_def MinScaleFactor_def MaxScaleFactor_def)

lemma adaptation_in_bounds:
  assumes "MinScaleFactor \<le> PositionScaleFactor (riskCfg sg)"
    and "PositionScaleFactor (riskCfg sg) \<le> MaxScaleFactor"
    and "adaptation sg = Inr sg'"
  shows "MinScaleFactor \<le> PositionScaleFactor (riskCfg sg')
     \<and> PositionScaleFactor (riskCfg sg') \<le> MaxScaleFactor"
  using assms adjustFactor_in_bounds
  by (auto simp: adaptation_def split: option.splits sum.splits if_splits)

lemma GenerateSignal_adaptation_result:
  assumes "GenerateSignal sg loc now m5 currentState kline currentPosition = Inr (s, sg')"
  shows "(if isAdaptationTime loc kline then adaptation sg else Inr sg) = Inr sg'"
  using assms
  by (auto simp: GenerateSignal_def split: sum.splits if_splits option.splits)

lemma adjustFactor_drawdown:
  "adjustFactor risk_cfg_scenario 80 100 (replicate 11 losing_trade)
     = risk_cfg_scenario \<lparr> PositionScaleFactor := 0.3 \<rparr>"
  by (simp add: adjustFactor_def Let_def fdiv_def MaxAllowedDrawdown_def MinScaleFactor_def
        MaxScaleFactor_def risk_cfg_scenario_def)

lemma GenerateSignal_first_minute:
  "GenerateSignal sg_scenario 0 0 None StateInitial kline_1h_first_minute no_position
     = Inr (Signal_None,
            sg_scenario \<lparr> riskCfg := risk_cfg_scenario \<lparr> PositionScaleFactor := 0.3 \<rparr> \<rparr>)"
  by (simp add: GenerateSignal_def isAdaptationTime_def Minute_def zero_time_def
        kline_1h_first_minute_def kline_hourly_def adaptation_def sg_scenario_def
        executor_drawdown_def adjustFactor_drawdown)

text \<open>
  C8. For any equity, peak equity and trade history the executor answers with, and any
  factor within [0.3, 1.5] before the call: the adaptation block, when it returns,
  leaves the factor within [0.3, 1.5], and so does every call of \<open>GenerateSignal\<close> that
  returns.
\<close>

theorem C8_scale_factor_in_bounds:
  assumes "0.3 \<le> PositionScaleFactor (riskCfg sg)"
    and "PositionScaleFactor (riskCfg sg) \<le> 1.5"
  shows "(adaptation sg = Inr sg1 \<longrightarrow>
            0.3 \<le> PositionScaleFactor (riskCfg sg1) \<and> PositionScaleFactor (riskCfg sg1) \<le> 1.5)
     \<and> (GenerateSignal sg loc now m5 currentState kline currentPosition = Inr (s, sg2) \<longrightarrow>
            0.3 \<le> PositionScaleFactor (riskCfg sg2) \<and> PositionScaleFactor (riskCfg sg2) \<le> 1.5)"
proof (intro conjI impI)
  assume a: "adaptation sg = Inr sg1"
  from adaptation_in_bounds [OF _ _ a] assms
  have "MinScaleFactor \<le> PositionScaleFactor (riskCfg sg1)
        \<and> PositionScaleFactor (riskCfg sg1) \<le> MaxScaleFactor"
    by (simp add: MinScaleFactor_def MaxScaleFactor_def)
  then show "0.3 \<le> PositionScaleFactor (riskCfg sg1)"
    and "PositionScaleFactor (riskCfg sg1) \<le> 1.5"
    by (simp_all add: MinScaleFactor_def MaxScaleFactor_def)
next
  assume g: "GenerateSignal sg loc now m5 currentState kline currentPosition = Inr (s, sg2)"
  have r: "(if isAdaptationTime loc kline then adaptation sg else Inr sg) = Inr sg2"
    using g by (rule GenerateSignal_adaptation_result)
  have "MinScaleFactor \<le> PositionScaleFactor (riskCfg sg2)
        \<and> PositionScaleFactor (riskCfg sg2) \<le> MaxScaleFactor"
  proof (cases "isAdaptationTime loc kline")
    case True
    with r have "adaptation sg = Inr sg2" by simp
    from adaptation_in_bounds [OF _ _ this] assms show ?thesis
      by (simp add: MinScaleFactor_def MaxScaleFactor_def)
  next
    case False
    with r assms show ?thesis
      by (simp add: MinScaleFactor_def MaxScaleFactor_def)
  qed
  then show "0.3 \<le> PositionScaleFactor (riskCfg sg2)"
    and "PositionScaleFactor (riskCfg sg2) \<le> 1.5"
    by (simp_all add: MinScaleFactor_def MaxScaleFactor_def)
qed

theorem C8_scale_factor_in_bounds_witness:
  "0.3 \<le> PositionScaleFactor (riskCfg sg_scenario)
   \<and> PositionScaleFactor (riskCfg sg_scenario) \<le> 1.5
   \<and> GenerateSignal sg_scenario 0 0 None StateInitial kline_1h_first_minute no_position
       = Inr (Signal_None,
              sg_scenario \<lparr> riskCfg := risk_cfg_scenario \<lparr> PositionScaleFactor := 0.3 \<rparr> \<rparr>)
   \<and> 0.3 \<le> PositionScaleFactor
        (riskCfg (sg_scenario \<lparr> riskCfg := risk_cfg_scenario \<lparr> PositionScaleFactor := 0.3 \<rparr> \<rparr>))
   \<and> PositionScaleFactor
        (riskCfg (sg_scenario \<lparr> riskCfg := risk_cfg_scenario \<lparr> PositionScaleFactor := 0.3 \<rparr> \<rparr>))
       \<le> 1.5"
proof -
  have lo: "0.3 \<le> PositionScaleFactor (riskCfg sg_scenario)"
    and hi: "PositionScaleFactor (riskCfg sg_scenario) \<le> 1.5"
    by (simp_all add: sg_scenario_def risk_cfg_scenario_def)
  note run = GenerateSignal_first_minute
  from C8_scale_factor_in_bounds [OF lo hi, of _ 0 0 None StateInitial kline_1h_first_minute
      no_position Signal_None
      "sg_scenario \<lparr> riskCfg := risk_cfg_scenario \<lparr> PositionScaleFactor := 0.3 \<rparr> \<rparr>"] run
  have "0.3 \<le> PositionScaleFactor
          (riskCfg (sg_scenario \<lparr> riskCfg := risk_cfg_scenario \<lparr> PositionScaleFactor := 0.3 \<rparr> \<rparr>))
        \<and> PositionScaleFactor
          (riskCfg (sg_scenario \<lparr> riskCfg := risk_cfg_scenario \<lparr> PositionScaleFactor := 0.3 \<rparr> \<rparr>))
          \<le> 1.5"
    by blast
  with lo hi run show ?thesis by blast
qed

section \<open>When the adaptation runs\<close>

lemma hour_div_minute: "(3600000 * (a::int) + 3599999) div 60000 = 60 * a + 59"
proof -
  have "3600000 * a + 3599999 = 59999 + (60 * a + 59) * 60000" by simp
  also have "\<dots> div 60000 = (60 * a + 59) + 59999 div 60000"
    by (rule div_mult_self1) simp
  finally show ?thesis by simp
qed

lemma minute_of_hour_59: "(60 * (a::int) + 59) mod 60 = 59"
proof -
  have "(59 + a * 60) mod 60 = 59 mod (60::int)" by (rule mod_mult_self1)
  then show ?thesis by (simp add: mult.commute add.commute)
qed

text \<open>
  The last millisecond of an hour is in its minute 59, in every location whose offset
  from UTC is a whole number of hours: no hourly candle of the data model makes
  \<open>isAdaptationTime\<close> true there, and \<open>GenerateSignal\<close> returns the generator as it got it.
\<close>

lemma hourly_end_minute_59:
  assumes "k_EndTime kline = k_StartTime kline + Hour_d - Millisecond"
    and "Truncate (k_StartTime kline) Hour_d = k_StartTime kline"
    and "loc mod Hour_d = 0"
  shows "Minute loc (k_EndTime kline) = 59"
proof -
  from assms(2) have "(k_StartTime kline - zero_time) mod 3600000 = 0"
    by (simp add: Truncate_def Hour_d_def)
  then obtain a where a: "k_StartTime kline - zero_time = 3600000 * a"
    by (auto simp: mod_eq_0_iff_dvd)
  from assms(3) obtain b where b: "loc = 3600000 * b"
    by (auto simp: mod_eq_0_iff_dvd Hour_d_def)
  have "k_EndTime kline + loc - zero_time = 3600000 * (a + b) + 3599999"
    using a b assms(1) by (simp add: Hour_d_def Millisecond_def algebra_simps)
  then show ?thesis
    unfolding Minute_def by (simp only: hour_div_minute minute_of_hour_59)
qed

lemma hourly_candle_never_adapts:
  assumes "k_EndTime kline = k_StartTime kline + Hour_d - Millisecond"
    and "Truncate (k_StartTime kline) Hour_d = k_StartTime kline"
    and "loc mod Hour_d = 0"
    and "k_Interval kline = ''1h''"
  shows "GenerateSignal sg loc now m5 currentState kline currentPosition = Inr (Signal_None, sg)"
  using hourly_end_minute_59 [OF assms(1-3)] assms(4)
  by (simp add: GenerateSignal_def isAdaptationTime_def)

text \<open>
  C9. The claim: for every closed hourly candle (interval \<open>1h\<close>, start truncated to the
  hour, end = start + 1h - 1ms) \<open>GenerateSignal\<close> runs the adaptation step and adjusts
  the factor unless fewer than 11 trade records exist. On the code the step runs only
  when the minute of the candle's end time is 0, and the end of such a candle is in
  minute 59. For the candle from 00:00:00.000 to 00:59:59.999 UTC, with an executor at
  equity 80 under a peak of 100 and eleven trade records, \<open>GenerateSignal\<close> returns the
  generator unchanged, factor 1.0; the adjustment on these answers gives 0.3.
\<close>

theorem C9_hourly_candle_skips_adaptation:
  "k_Interval kline_hourly = ''1h''
   \<and> k_EndTime kline_hourly = k_StartTime kline_hourly + Hour_d - Millisecond
   \<and> Truncate (k_StartTime kline_hourly) Hour_d = k_StartTime kline_hourly
   \<and> Minute 0 (k_EndTime kline_hourly) = 59
   \<and> executor sg_scenario = Some executor_drawdown
   \<and> GetTradeHistory executor_drawdown = Inr (replicate 11 losing_trade)
   \<and> length (replicate 11 losing_trade) = 11
   \<and> GenerateSignal sg_scenario 0 0 None StateInitial kline_hourly no_position
       = Inr (Signal_None, sg_scenario)
   \<and> PositionScaleFactor (riskCfg sg_scenario) = 1
   \<and> PositionScaleFactor (adjustFactor (riskCfg sg_scenario) 80 100 (replicate 11 losing_trade))
       = 0.3"
  by (simp add: GenerateSignal_def isAdaptationTime_def Minute_def zero_time_def
        kline_hourly_def Hour_d_def Millisecond_def Truncate_def sg_scenario_def
        executor_drawdown_def adjustFactor_drawdown)
     (simp add: risk_cfg_scenario_def)

end
